theory Spec2Isabelle
  imports Main "HOL-Library.Word"
begin

unbundle bit_operations_syntax

section \<open>The PN532 driver of pn532.py: data model\<close>

text \<open>
  The driver talks to the reader chip through a bus (SPI, I2C). A byte on the bus
  and an element of a Python \<open>bytearray\<close> is an \<open>8 word\<close>; the integers a caller
  passes (command codes, parameters, block numbers) are Python integers, \<open>int\<close>.
  Every exception the code can raise is a value of \<open>error\<close>; a function that can
  raise returns \<open>error + 'a\<close>, with \<open>Inl\<close> for the exception.
\<close>

type_synonym byte = "8 word"

datatype error =
    OSError
  | AssertionError
  | IndexError
  | TypeError
  | ValueError
  | RuntimeError string

text \<open>
  What the driver does on the bus, in order: a write of bytes, a read of a number of
  bytes, a call of \<open>_wait_ready\<close>, a call of \<open>_wakeup\<close>.
\<close>

datatype event =
    Write "byte list"
  | Read nat
  | Poll
  | Wakeup

text \<open>
  The bus: \<open>rx\<close> holds the bytes the device delivers, in order (a read past its end
  raises \<open>OSError\<close>, as the bus primitives do on a failed transfer); \<open>ready\<close> holds
  the outcome of each coming call of \<open>_wait_ready\<close> (\<open>True\<close>: the device became
  ready before the timeout; an exhausted list is a timeout); \<open>wfail\<close> tells for each
  coming write whether it raises \<open>OSError\<close>; \<open>log\<close> records the events.
\<close>

record bus =
  rx :: "byte list"
  ready :: "bool list"
  wfail :: "bool list"
  log :: "event list"

definition bus_write :: "byte list \<Rightarrow> bus \<Rightarrow> (error + unit) \<times> bus" where
  "bus_write d s =
     (case wfail s of
        [] \<Rightarrow> (Inr (), s\<lparr>log := log s @ [Write d]\<rparr>)
      | f # fs \<Rightarrow>
          (if f then Inl OSError else Inr (), s\<lparr>wfail := fs, log := log s @ [Write d]\<rparr>))"

definition bus_read :: "nat \<Rightarrow> bus \<Rightarrow> (error + byte list) \<times> bus" where
  "bus_read n s =
     (if n \<le> length (rx s)
      then (Inr (take n (rx s)), s\<lparr>rx := drop n (rx s), log := log s @ [Read n]\<rparr>)
      else (Inl OSError, s\<lparr>rx := [], log := log s @ [Read n]\<rparr>))"

text \<open>
  \<open>_wait_ready(timeout)\<close> polls the device until it is ready or the timeout has
  passed. The clock is not modelled: the outcome is read from \<open>ready\<close>. The status
  transfers it makes (\<open>xfer2\<close> of \<open>PN532_SPI_STATREAD\<close>, \<open>read_byte\<close> of the status
  byte, the input of the IRQ pin) are the poll, one \<open>Poll\<close> event; they take nothing
  from \<open>rx\<close>.
\<close>

definition wait_ready :: "nat \<Rightarrow> bus \<Rightarrow> bool \<times> bus" where
  "wait_ready timeout s =
     (case ready s of
        [] \<Rightarrow> (False, s\<lparr>log := log s @ [Poll]\<rparr>)
      | b # bs \<Rightarrow> (b, s\<lparr>ready := bs, log := log s @ [Poll]\<rparr>))"

text \<open>
  \<open>_wakeup\<close>. \<open>PN532_I2C._wakeup\<close> (lines 694 to 700) pulses the request pin when
  there is one and does nothing on the bus. \<open>PN532_SPI._wakeup\<close> (lines 518 to 524)
  writes the one byte 0 with \<open>writebytes\<close>, outside any \<open>try\<close>: that write can raise
  \<open>OSError\<close> as any other. The call is the event \<open>Wakeup\<close>; the byte of the SPI
  variant is a write after it.
\<close>

definition i2c_wakeup :: "bus \<Rightarrow> bus" where
  "i2c_wakeup s = s\<lparr>log := log s @ [Wakeup]\<rparr>"

definition spi_wakeup :: "bus \<Rightarrow> (error + unit) \<times> bus" where
  "spi_wakeup s = bus_write [0x00] (s\<lparr>log := log s @ [Wakeup]\<rparr>)"

text \<open>Python's \<open>xs[i]\<close> for \<open>i \<ge> 0\<close>, and the slice \<open>xs[i:j]\<close> for \<open>0 \<le> i\<close>, \<open>0 \<le> j\<close>.\<close>

definition idx :: "'a list \<Rightarrow> nat \<Rightarrow> error + 'a" where
  "idx xs i = (if i < length xs then Inr (xs ! i) else Inl IndexError)"

definition py_slice :: "'a list \<Rightarrow> nat \<Rightarrow> nat \<Rightarrow> 'a list" where
  "py_slice xs i j = take (j - i) (drop i xs)"

section \<open>Frame construction: \<open>send_command\<close>\<close>

text \<open>
  \<open>PN532_I2C.send_command\<close>, lines 661 to 671: the frame is built in a zeroed
  \<open>bytearray(len(data) + 7)\<close> by index.
\<close>

definition i2c_frame :: "byte list \<Rightarrow> byte list" where
  "i2c_frame data =
     (let n = length data;
          cmd = replicate (n + 7) (0 :: byte);
          cmd = cmd[0 := 0x00];
          cmd = cmd[1 := 0x00];
          cmd = cmd[2 := 0xFF];
          cmd = cmd[3 := of_nat (n + 1)];
          cmd = cmd[4 := word_of_int ((NOT (uint (cmd ! 3)) + 1) AND 0xFF)];
          cmd = take 5 cmd @ data @ drop (5 + n) cmd;
          checksum = sum_list (map uint data) AND 0xFF;
          cmd = cmd[5 + n := word_of_int (NOT checksum AND 0xFF)]
      in cmd)"

text \<open>
  \<open>PN532_SPI.send_command\<close>, lines 483 to 494: the same in a
  \<open>bytearray(len(data) + 8)\<close>, with the postamble written at \<open>6 + len(data)\<close>.
\<close>

definition spi_frame :: "byte list \<Rightarrow> byte list" where
  "spi_frame data =
     (let n = length data;
          cmd = replicate (n + 8) (0 :: byte);
          cmd = cmd[0 := 0x00];
          cmd = cmd[1 := 0x00];
          cmd = cmd[2 := 0xFF];
          cmd = cmd[3 := of_nat (n + 1)];
          cmd = cmd[4 := word_of_int ((NOT (uint (cmd ! 3)) + 1) AND 0xFF)];
          cmd = take 5 cmd @ data @ drop (5 + n) cmd;
          checksum = sum_list (map uint data) AND 0xFF;
          cmd = cmd[5 + n := word_of_int (NOT checksum AND 0xFF)];
          cmd = cmd[6 + n := 0x00]
      in cmd)"

section \<open>The bus primitives of the two variants\<close>

text \<open>
  \<open>PN532_I2C.write_data\<close> writes the bytes one after the other, \<open>PN532_I2C.read_data\<close>
  reads \<open>count\<close> bytes. \<open>PN532_SPI.write_data\<close> sends \<open>PN532_SPI_DATAWRITE\<close> (1)
  before the bytes; \<open>spidev\<close>'s \<open>xfer2\<close> returns as many bytes as it is given.
\<close>

definition i2c_write_data :: "byte list \<Rightarrow> bus \<Rightarrow> (error + unit) \<times> bus" where
  "i2c_write_data d s = bus_write d s"

definition i2c_read_data :: "nat \<Rightarrow> bus \<Rightarrow> (error + byte list) \<times> bus" where
  "i2c_read_data count s = bus_read count s"

definition spi_write_data :: "byte list \<Rightarrow> bus \<Rightarrow> (error + unit) \<times> bus" where
  "spi_write_data d s = bus_write (0x01 # d) s"

definition xfer2 :: "nat \<Rightarrow> bus \<Rightarrow> (error + byte list) \<times> bus" where
  "xfer2 n s = bus_read n s"

text \<open>
  \<open>send_command\<close>: the assertion on the length of \<open>data\<close>, then the frame, then
  \<open>write_data\<close>.
\<close>

definition i2c_send_command :: "byte list \<Rightarrow> bus \<Rightarrow> (error + unit) \<times> bus" where
  "i2c_send_command data s =
     (if 1 < length data \<and> length data < 255
      then i2c_write_data (i2c_frame data) s
      else (Inl AssertionError, s))"

definition spi_send_command :: "byte list \<Rightarrow> bus \<Rightarrow> (error + unit) \<times> bus" where
  "spi_send_command data s =
     (if 1 < length data \<and> length data < 255
      then spi_write_data (spi_frame data) s
      else (Inl AssertionError, s))"

section \<open>\<open>call_function\<close>\<close>

text \<open>
  The head of \<open>call_function\<close>, the same in both variants:
  \<open>data = bytearray(2 + len(params))\<close>, \<open>data[0] = 0xD4\<close>,
  \<open>data[1] = command & 0xFF\<close>, then \<open>data[2+i] = val\<close> for each parameter.
  \<open>len(None)\<close> raises \<open>TypeError\<close>; storing an integer outside \<open>0..255\<close> in a
  \<open>bytearray\<close> raises \<open>ValueError\<close>.
\<close>

fun fill :: "byte list \<Rightarrow> nat \<Rightarrow> int list \<Rightarrow> error + byte list" where
  "fill d i [] = Inr d"
| "fill d i (v # vs) =
     (if 0 \<le> v \<and> v < 256 then fill (d[i := word_of_int v]) (Suc i) vs
      else Inl ValueError)"

definition build_data :: "int \<Rightarrow> int list option \<Rightarrow> error + byte list" where
  "build_data command params =
     (case params of
        None \<Rightarrow> Inl TypeError
      | Some ps \<Rightarrow>
          (let d = replicate (2 + length ps) (0 :: byte);
               d = d[0 := 0xD4];
               d = d[1 := word_of_int (command AND 0xFF)]
           in fill d 2 ps))"

text \<open>
  The test \<open>x[0] != 0 or x[1] != 0 or x[2] != 0xFF\<close>, which the code applies to the
  six bytes read as acknowledgement and to the three bytes read as frame header.
\<close>

definition bad_start :: "byte list \<Rightarrow> bool" where
  "bad_start x = (x ! 0 \<noteq> 0 \<or> x ! 1 \<noteq> 0 \<or> x ! 2 \<noteq> 0xFF)"

subsection \<open>\<open>PN532_I2C.call_function\<close>\<close>

text \<open>
  Lines 619 to 654, from \<open># Read response\<close> to the end. The reads of the header
  and of the rest of the frame return \<open>None\<close> on \<open>OSError\<close>; the read of the two
  length bytes is outside any \<open>try\<close>.
\<close>

definition i2c_read_response :: "bus \<Rightarrow> (error + byte list option) \<times> bus" where
  "i2c_read_response s =
     (case i2c_read_data 3 s of
        (Inl e, s1) \<Rightarrow> (if e = OSError then Inr None else Inl e, s1)
      | (Inr frame, s1) \<Rightarrow>
          if bad_start frame then (Inr None, s1)
          else
            (case i2c_read_data 2 s1 of
               (Inl e, s2) \<Rightarrow> (Inl e, s2)
             | (Inr frame_len, s2) \<Rightarrow>
                 if (uint (frame_len ! 0) + uint (frame_len ! 1)) AND 0xFF \<noteq> 0
                 then (Inr None, s2)
                 else
                   (let data_len = unat (frame_len ! 0) in
                    case i2c_read_data (data_len + 2) s2 of
                      (Inl e, s3) \<Rightarrow> (if e = OSError then Inr None else Inl e, s3)
                    | (Inr response, s3) \<Rightarrow>
                        if (\<Sum>i\<leftarrow>[0..<data_len + 1]. uint (response ! i)) AND 0xFF \<noteq> 0
                        then (Inr None, s3)
                        else (Inr (Some (py_slice response 1 (1 + data_len - 1))), s3))))"

text \<open>Lines 578 to 617, then the response phase above.\<close>

definition i2c_call_function ::
  "int \<Rightarrow> int list option \<Rightarrow> nat \<Rightarrow> nat \<Rightarrow> bus \<Rightarrow> (error + byte list option) \<times> bus" where
  "i2c_call_function command params response_length timeout s =
     (case build_data command params of
        Inl e \<Rightarrow> (Inl e, s)
      | Inr data \<Rightarrow>
          (case i2c_send_command data s of
             (Inl e, s1) \<Rightarrow> (if e = OSError then (Inr None, i2c_wakeup s1) else (Inl e, s1))
           | (Inr u, s1) \<Rightarrow>
               (case wait_ready timeout s1 of
                  (False, s2) \<Rightarrow> (Inr None, s2)
                | (True, s2) \<Rightarrow>
                    (case i2c_read_data 6 s2 of
                       (Inl e, s3) \<Rightarrow> (if e = OSError then Inr None else Inl e, s3)
                     | (Inr ack, s3) \<Rightarrow>
                         if bad_start ack then (Inr None, s3)
                         else
                           (case wait_ready timeout s3 of
                              (False, s4) \<Rightarrow> (Inr None, s4)
                            | (True, s4) \<Rightarrow> i2c_read_response s4)))))"

subsection \<open>\<open>PN532_SPI.call_function\<close>\<close>

text \<open>
  The loop of lines 467 to 469: \<open>checksum += response[5+i]\<close> for \<open>i\<close> in
  \<open>range(data_len + 1)\<close>; an index past the end raises \<open>IndexError\<close>.
\<close>

fun spi_checksum :: "byte list \<Rightarrow> nat list \<Rightarrow> int \<Rightarrow> error + int" where
  "spi_checksum response [] checksum = Inr checksum"
| "spi_checksum response (i # is) checksum =
     (case idx response (5 + i) of
        Inl e \<Rightarrow> Inl e
      | Inr b \<Rightarrow> spi_checksum response is (checksum + uint b))"

text \<open>
  Lines 440 to 475, from \<open># Read response\<close> to the end. The header is what
  \<open>xfer2\<close> returns for four bytes, without the first: three bytes. No read of the
  SPI variant is inside a \<open>try\<close>.
\<close>

definition spi_read_response :: "nat \<Rightarrow> bus \<Rightarrow> (error + byte list option) \<times> bus" where
  "spi_read_response response_length s =
     (case xfer2 4 s of
        (Inl e, s1) \<Rightarrow> (Inl e, s1)
      | (Inr r, s1) \<Rightarrow>
          (let frame = drop 1 r in
           if bad_start frame then (Inr None, s1)
           else
             (case idx frame 3 of
                Inl e \<Rightarrow> (Inl e, s1)
              | Inr data_len \<Rightarrow>
                  (case idx frame 4 of
                     Inl e \<Rightarrow> (Inl e, s1)
                   | Inr lcs \<Rightarrow>
                       if (uint data_len + uint lcs) AND 0xFF \<noteq> 0 then (Inr None, s1)
                       else
                         (let max_read = min (response_length + 6) (unat data_len + 6) in
                          case xfer2 (1 + (max_read - 4)) s1 of
                            (Inl e, s2) \<Rightarrow> (Inl e, s2)
                          | (Inr r2, s2) \<Rightarrow>
                              (let response = drop 1 r2 in
                               case spi_checksum response [0..<unat data_len + 1] 0 of
                                 Inl e \<Rightarrow> (Inl e, s2)
                               | Inr checksum \<Rightarrow>
                                   if checksum AND 0xFF \<noteq> 0 then (Inr None, s2)
                                   else (Inr (Some (py_slice response 6 (6 + unat data_len))), s2)))))))"

text \<open>
  Lines 399 to 438, then the response phase above. \<open>_wakeup\<close> is called in the
  \<open>except OSError\<close> handler: an \<open>OSError\<close> of its write leaves \<open>call_function\<close>.
\<close>

definition spi_call_function ::
  "int \<Rightarrow> int list option \<Rightarrow> nat \<Rightarrow> nat \<Rightarrow> bus \<Rightarrow> (error + byte list option) \<times> bus" where
  "spi_call_function command params response_length timeout s =
     (case build_data command params of
        Inl e \<Rightarrow> (Inl e, s)
      | Inr data \<Rightarrow>
          (case spi_send_command data s of
             (Inl e, s1) \<Rightarrow>
               (if e = OSError
                then (case spi_wakeup s1 of
                        (Inl e2, s2) \<Rightarrow> (Inl e2, s2)
                      | (Inr u, s2) \<Rightarrow> (Inr None, s2))
                else (Inl e, s1))
           | (Inr u, s1) \<Rightarrow>
               (case wait_ready timeout s1 of
                  (False, s2) \<Rightarrow> (Inr None, s2)
                | (True, s2) \<Rightarrow>
                    (case xfer2 7 s2 of
                       (Inl e, s3) \<Rightarrow> (Inl e, s3)
                     | (Inr r, s3) \<Rightarrow>
                         (let ack = drop 1 r in
                          if bad_start ack then (Inr None, s3)
                          else
                            (case wait_ready timeout s3 of
                               (False, s4) \<Rightarrow> (Inr None, s4)
                             | (True, s4) \<Rightarrow> spi_read_response response_length s4))))))"

section \<open>The command catalog: the methods of the base class \<open>PN532\<close>\<close>

text \<open>
  The base class has no \<open>call_function\<close> of its own: each method calls the one of the
  variant in use. The model takes it as an argument, over any state \<open>'s\<close>; its
  arguments are the command, the parameters, \<open>response_length\<close> and \<open>timeout\<close>.
\<close>

type_synonym 's call_fn =
  "int \<Rightarrow> int list option \<Rightarrow> nat \<Rightarrow> nat \<Rightarrow> 's \<Rightarrow> (error + byte list option) \<times> 's"

text \<open>
  \<open>get_firmware_version\<close>, lines 116 to 124. The tuple of line 124 is built from left
  to right; an index past the end raises \<open>IndexError\<close>.
\<close>

definition firmware_tuple :: "byte list \<Rightarrow> error + (byte \<times> byte \<times> byte \<times> byte)" where
  "firmware_tuple response =
     (case idx response 0 of
        Inl e \<Rightarrow> Inl e
      | Inr ic \<Rightarrow>
          (case idx response 1 of
             Inl e \<Rightarrow> Inl e
           | Inr ver \<Rightarrow>
               (case idx response 2 of
                  Inl e \<Rightarrow> Inl e
                | Inr revision \<Rightarrow>
                    (case idx response 3 of
                       Inl e \<Rightarrow> Inl e
                     | Inr support \<Rightarrow> Inr (ic, ver, revision, support)))))"

definition get_firmware_version ::
  "'s call_fn \<Rightarrow> 's \<Rightarrow> (error + (byte \<times> byte \<times> byte \<times> byte)) \<times> 's" where
  "get_firmware_version call_function s =
     (case call_function 0x02 None 4 1 s of
        (Inl e, s1) \<Rightarrow> (Inl e, s1)
      | (Inr None, s1) \<Rightarrow> (Inl (RuntimeError ''Failed to get firmware version!''), s1)
      | (Inr (Some response), s1) \<Rightarrow> (firmware_tuple response, s1))"

text \<open>\<open>read_passive_target\<close>, lines 133 to 152.\<close>

definition read_passive_target ::
  "'s call_fn \<Rightarrow> int \<Rightarrow> nat \<Rightarrow> 's \<Rightarrow> (error + byte list option) \<times> 's" where
  "read_passive_target call_function card_baud timeout s =
     (case call_function 0x4A (Some [0x01, card_baud]) 20 timeout s of
        (Inl e, s1) \<Rightarrow> (Inl e, s1)
      | (Inr None, s1) \<Rightarrow> (Inr None, s1)
      | (Inr (Some response), s1) \<Rightarrow>
          (case idx response 0 of
             Inl e \<Rightarrow> (Inl e, s1)
           | Inr count \<Rightarrow>
               if count \<noteq> 0x01
               then (Inl (RuntimeError ''More than one card detected!''), s1)
               else
                 (case idx response 5 of
                    Inl e \<Rightarrow> (Inl e, s1)
                  | Inr uidlen \<Rightarrow>
                      if uidlen > 7
                      then (Inl (RuntimeError ''Found card with unexpectedly long UID!''), s1)
                      else (Inr (Some (py_slice response 6 (6 + unat uidlen))), s1))))"

text \<open>
  \<open>get_passive_mifare\<close>, lines 340 to 350, with the defaults of
  \<open>read_passive_target\<close>: \<open>card_baud = 0\<close>, \<open>timeout = 1000\<close>.
\<close>

definition get_passive_mifare ::
  "'s call_fn \<Rightarrow> 's \<Rightarrow> (error + (nat \<times> byte list) option) \<times> 's" where
  "get_passive_mifare call_function s =
     (case read_passive_target call_function 0x00 1000 s of
        (Inl e, s1) \<Rightarrow> (Inl e, s1)
      | (Inr None, s1) \<Rightarrow> (Inr None, s1)
      | (Inr (Some response), s1) \<Rightarrow> (Inr (Some (length response, response)), s1))"

text \<open>
  The key of \<open>read_mifare\<close> and \<open>write_mifare\<close>: \<open>if not key\<close> replaces \<open>None\<close> and
  the empty key by six bytes \<open>0xFF\<close>. Then the authentication command:
  \<open>key_cmd = [MIFARE_CMD_AUTH_B, block_number]\<close>, its first element replaced by
  \<open>MIFARE_CMD_AUTH_A\<close> when \<open>key_number == 0\<close>, extended by the key and the UID.
\<close>

definition default_key :: "int list option \<Rightarrow> int list" where
  "default_key key =
     (case key of
        None \<Rightarrow> [0xFF, 0xFF, 0xFF, 0xFF, 0xFF, 0xFF]
      | Some k \<Rightarrow> if k = [] then [0xFF, 0xFF, 0xFF, 0xFF, 0xFF, 0xFF] else k)"

definition key_cmd :: "int \<Rightarrow> int \<Rightarrow> int list \<Rightarrow> byte list \<Rightarrow> int list" where
  "key_cmd block_number key_number key uid =
     (let c = [0x61, block_number];
          c = (if key_number = 0 then c[0 := 0x60] else c);
          c = c @ key;
          c = c @ map uint uid
      in c)"

text \<open>
  \<open>read_mifare\<close>, lines 154 to 195. \<open>uidlen, uid = self.get_passive_mifare()\<close>
  raises \<open>TypeError\<close> when the call returns \<open>None\<close>; \<open>response[0]\<close> raises
  \<open>TypeError\<close> when \<open>response\<close> is \<open>None\<close> and \<open>IndexError\<close> when it is empty.
\<close>

definition read_mifare ::
  "'s call_fn \<Rightarrow> int \<Rightarrow> int \<Rightarrow> int list option \<Rightarrow> 's \<Rightarrow> (error + byte list) \<times> 's" where
  "read_mifare call_function block_number key_number key s =
     (let key = default_key key in
      case get_passive_mifare call_function s of
        (Inl e, s1) \<Rightarrow> (Inl e, s1)
      | (Inr None, s1) \<Rightarrow> (Inl TypeError, s1)
      | (Inr (Some (uidlen, uid)), s1) \<Rightarrow>
          (case call_function 0x40
                  (Some ([0x01] @ key_cmd block_number key_number key uid)) 1 1000 s1 of
             (Inl e, s2) \<Rightarrow> (Inl e, s2)
           | (Inr None, s2) \<Rightarrow> (Inl TypeError, s2)
           | (Inr (Some response), s2) \<Rightarrow>
               (case idx response 0 of
                  Inl e \<Rightarrow> (Inl e, s2)
                | Inr status \<Rightarrow>
                    if status \<noteq> 0
                    then (Inl (RuntimeError ''Failed to authenticate card''), s2)
                    else
                      (case call_function 0x40 (Some [0x01, 0x30, block_number]) 17 1000 s2 of
                         (Inl e, s3) \<Rightarrow> (Inl e, s3)
                       | (Inr None, s3) \<Rightarrow> (Inl TypeError, s3)
                       | (Inr (Some response), s3) \<Rightarrow>
                           (case idx response 0 of
                              Inl e \<Rightarrow> (Inl e, s3)
                            | Inr status \<Rightarrow>
                                if status \<noteq> 0
                                then (Inl (RuntimeError ''Failed to read data''), s3)
                                else (Inr (drop 1 response), s3))))))"

text \<open>
  \<open>write_mifare\<close>, lines 197 to 241. The assertion
  \<open>data and len(data) == 16\<close> comes first.
\<close>

definition write_mifare ::
  "'s call_fn \<Rightarrow> int \<Rightarrow> int list \<Rightarrow> int \<Rightarrow> int list option \<Rightarrow> 's \<Rightarrow> (error + bool) \<times> 's" where
  "write_mifare call_function block_number data key_number key s =
     (if \<not> (data \<noteq> [] \<and> length data = 16) then (Inl AssertionError, s)
      else
        (let key = default_key key in
         case get_passive_mifare call_function s of
           (Inl e, s1) \<Rightarrow> (Inl e, s1)
         | (Inr None, s1) \<Rightarrow> (Inl TypeError, s1)
         | (Inr (Some (uidlen, uid)), s1) \<Rightarrow>
             (case call_function 0x40
                     (Some ([0x01] @ key_cmd block_number key_number key uid)) 1 1000 s1 of
                (Inl e, s2) \<Rightarrow> (Inl e, s2)
              | (Inr None, s2) \<Rightarrow> (Inl TypeError, s2)
              | (Inr (Some response), s2) \<Rightarrow>
                  (case idx response 0 of
                     Inl e \<Rightarrow> (Inl e, s2)
                   | Inr status \<Rightarrow>
                       if status \<noteq> 0
                       then (Inl (RuntimeError ''Failed to authenticate card''), s2)
                       else
                         (case call_function 0x40
                                 (Some ([0x01, 0xA0, block_number] @ data)) 1 1000 s2 of
                            (Inl e, s3) \<Rightarrow> (Inl e, s3)
                          | (Inr None, s3) \<Rightarrow> (Inl TypeError, s3)
                          | (Inr (Some response), s3) \<Rightarrow>
                              (case idx response 0 of
                                 Inl e \<Rightarrow> (Inl e, s3)
                               | Inr status \<Rightarrow>
                                   if status \<noteq> 0
                                   then (Inl (RuntimeError ''Failed to write data''), s3)
                                   else (Inr True, s3)))))))"

text \<open>
  \<open>write_ntag2xx\<close>, lines 268 to 293: the assertion
  \<open>data and len(data) == 4\<close>, then the test of the block number against
  \<open>NTAG2XX_USER_START_PAGE = 4\<close> and \<open>NTAG2XX_USER_END_PAGE = 129\<close>.
\<close>

definition write_ntag2xx ::
  "'s call_fn \<Rightarrow> int \<Rightarrow> int list \<Rightarrow> 's \<Rightarrow> (error + bool) \<times> 's" where
  "write_ntag2xx call_function block_number data s =
     (if \<not> (data \<noteq> [] \<and> length data = 4) then (Inl AssertionError, s)
      else if block_number < 4 \<or> block_number > 129
      then (Inl (RuntimeError ''Block must be user block4..129''), s)
      else
        (case call_function 0x40 (Some ([0x01, 0xA2, block_number] @ data)) 1 1000 s of
           (Inl e, s1) \<Rightarrow> (Inl e, s1)
         | (Inr None, s1) \<Rightarrow> (Inl TypeError, s1)
         | (Inr (Some response), s1) \<Rightarrow>
             (case idx response 0 of
                Inl e \<Rightarrow> (Inl e, s1)
              | Inr status \<Rightarrow>
                  if status \<noteq> 0
                  then (Inl (RuntimeError ''Failed to write data''), s1)
                  else (Inr True, s1))))"



section \<open>Arithmetic of the checksums\<close>

lemma and_255_mod: "(x::int) AND 0xFF = x mod 256"
proof -
  have "mask 8 = (255::int)" by (simp add: mask_eq_exp_minus_1)
  then show ?thesis using take_bit_eq_mod[of 8 x] take_bit_eq_mask[of 8 x] by simp
qed

lemma byte_of_mod: "(word_of_int (x mod 256) :: byte) = word_of_int x"
  using wi_bintr[where 'a=8, of 8 x] by (simp add: take_bit_eq_mod)

lemma byte_of_sum: "word_of_int (sum_list (map uint xs)) = (sum_list xs :: byte)"
  by (induction xs) simp_all

lemma length_checksum_byte:
  "(word_of_int ((NOT (uint (b::byte)) + 1) AND 0xFF) :: byte) = - b"
  unfolding and_255_mod byte_of_mod by (simp add: not_int_def)

lemma data_checksum_byte:
  "(word_of_int (NOT (sum_list (map uint data) AND 0xFF) AND 0xFF) :: byte)
     = - 1 - sum_list data"
  unfolding and_255_mod byte_of_mod not_int_def by (simp add: byte_of_mod byte_of_sum)

lemma mod_256_byte: "x mod 256 = 0 \<longleftrightarrow> (word_of_int x :: byte) = 0"
proof -
  have "(word_of_int x :: byte) = 0 \<longleftrightarrow> take_bit 8 x = take_bit 8 (0::int)"
    using word_of_int_eq_iff[where 'a=8, of x 0] by simp
  then show ?thesis by (simp add: take_bit_eq_mod)
qed

section \<open>The frames in closed form\<close>

lemma replicate_7: "replicate (n + 7) (0::byte) = 0 # 0 # 0 # 0 # 0 # replicate n 0 @ [0, 0]"
proof -
  have "replicate (n + 7) (0::byte) = replicate 5 0 @ replicate n 0 @ replicate 2 0"
    unfolding replicate_add [symmetric] by simp
  then show ?thesis by (simp add: eval_nat_numeral)
qed

lemma replicate_8:
  "replicate (n + 8) (0::byte) = 0 # 0 # 0 # 0 # 0 # replicate n 0 @ [0, 0, 0]"
proof -
  have "replicate (n + 8) (0::byte) = replicate 5 0 @ replicate n 0 @ replicate 3 0"
    unfolding replicate_add [symmetric] by simp
  then show ?thesis by (simp add: eval_nat_numeral)
qed

lemma update_past_5: "(a # b # c # d # e # xs)[5 + n := v] = a # b # c # d # e # xs[n := v]"
  by (simp add: eval_nat_numeral)

lemma update_past_6:
  "(a # b # c # d # e # xs)[6 + n := v] = a # b # c # d # e # xs[Suc n := v]"
  by (simp add: eval_nat_numeral)

lemma drop_past_5: "drop (5 + n) (a # b # c # d # e # xs) = drop n xs"
  by (simp add: eval_nat_numeral)

lemma i2c_frame_eq:
  "i2c_frame data =
     [0, 0, 0xFF, of_nat (length data + 1), - of_nat (length data + 1)] @ data
       @ [- 1 - sum_list data, 0]"
  unfolding i2c_frame_def Let_def replicate_7
  by (simp add: update_past_5 drop_past_5 list_update_append length_checksum_byte
      data_checksum_byte del: of_nat_Suc of_nat_add bit.de_Morgan_conj)

lemma spi_frame_eq:
  "spi_frame data =
     [0, 0, 0xFF, of_nat (length data + 1), - of_nat (length data + 1)] @ data
       @ [- 1 - sum_list data, 0, 0]"
  unfolding spi_frame_def Let_def replicate_8
  by (simp add: update_past_5 update_past_6 drop_past_5 list_update_append
      length_checksum_byte data_checksum_byte del: of_nat_Suc of_nat_add bit.de_Morgan_conj)

section \<open>The head of \<open>call_function\<close> in closed form\<close>

lemma fill_ok:
  "\<forall>v\<in>set ps. 0 \<le> v \<and> v < 256 \<Longrightarrow> i + length ps \<le> length d \<Longrightarrow>
   fill d i ps = Inr (take i d @ map word_of_int ps @ drop (i + length ps) d)"
proof (induction ps arbitrary: d i)
  case Nil
  then show ?case by simp
next
  case (Cons v vs)
  have i: "i < length d" using Cons.prems(2) by simp
  have "fill d i (v # vs) = fill (d[i := word_of_int v]) (Suc i) vs"
    using Cons.prems(1) by simp
  also have "\<dots> = Inr (take (Suc i) (d[i := word_of_int v]) @ map word_of_int vs
                      @ drop (Suc i + length vs) (d[i := word_of_int v]))"
    using Cons.prems by (intro Cons.IH) auto
  also have "take (Suc i) (d[i := word_of_int v]) = take i d @ [word_of_int v]"
    using i by (simp add: take_Suc_conv_app_nth)
  also have "drop (Suc i + length vs) (d[i := word_of_int v]) = drop (i + length (v # vs)) d"
    by simp
  finally show ?case by simp
qed

lemma build_data_Some:
  assumes "\<forall>v\<in>set ps. 0 \<le> v \<and> v < 256"
  shows "build_data command (Some ps) =
           Inr (0xD4 # word_of_int (command AND 0xFF) # map word_of_int ps)"
proof -
  have r: "replicate (2 + length ps) (0::byte) = 0 # 0 # replicate (length ps) 0"
    by (simp add: eval_nat_numeral)
  show ?thesis
    unfolding build_data_def Let_def r using assms
    by (simp add: fill_ok eval_nat_numeral)
qed

section \<open>The bus primitives\<close>

lemma bus_write_ok:
  "take 1 (wfail s) \<noteq> [True] \<Longrightarrow>
   bus_write d s = (Inr (), s\<lparr>wfail := tl (wfail s), log := log s @ [Write d]\<rparr>)"
  by (cases "wfail s") (auto simp: bus_write_def)


lemma wait_ready_False:
  "take 1 (ready s) \<noteq> [True] \<Longrightarrow>
   wait_ready t s = (False, s\<lparr>ready := tl (ready s), log := log s @ [Poll]\<rparr>)"
  by (cases "ready s") (auto simp: wait_ready_def)

lemma wait_ready_True:
  "take 1 (ready s) = [True] \<Longrightarrow>
   wait_ready t s = (True, s\<lparr>ready := tl (ready s), log := log s @ [Poll]\<rparr>)"
  by (cases "ready s") (auto simp: wait_ready_def)

lemma bus_read_prefix:
  "rx s = xs @ rest \<Longrightarrow> length xs = n \<Longrightarrow>
   bus_read n s = (Inr xs, s\<lparr>rx := rest, log := log s @ [Read n]\<rparr>)"
  by (simp add: bus_read_def)

lemma bad_start_take:
  "3 \<le> length x \<Longrightarrow> bad_start x \<longleftrightarrow> take 3 x \<noteq> [0x00, 0x00, 0xFF]"
  by (cases x rule: list.exhaust; cases "tl x"; cases "tl (tl x)")
     (auto simp: bad_start_def)

section \<open>The sending phase\<close>

lemma send_ok:
  assumes "1 < length data" "length data < 255" "take 1 (wfail s) \<noteq> [True]"
  shows "i2c_send_command data s =
           (Inr (), s\<lparr>wfail := tl (wfail s), log := log s @ [Write (i2c_frame data)]\<rparr>)"
    and "spi_send_command data s =
           (Inr (), s\<lparr>wfail := tl (wfail s),
                      log := log s @ [Write (0x01 # spi_frame data)]\<rparr>)"
  using assms
  by (simp_all add: i2c_send_command_def spi_send_command_def i2c_write_data_def
      spi_write_data_def bus_write_ok)


section \<open>Timeout while waiting for the acknowledgement\<close>

text \<open>
  Claim C8. If \<open>_wait_ready\<close> does not return true within the timeout at the
  ACK-wait phase, \<open>call_function\<close> returns \<open>None\<close> without any read from the bus.
  The parameters are bytes, at most 252 of them, so that the frame is sent; the write
  succeeds (\<open>wfail\<close> does not start with \<open>True\<close>) and the first \<open>_wait_ready\<close> is
  not \<open>True\<close>. In both variants the call returns \<open>None\<close>; the events it adds are the
  write of the frame and the poll, and \<open>rx\<close> is untouched.
\<close>

theorem ack_timeout_no_read:
  assumes "\<forall>v\<in>set ps. 0 \<le> v \<and> v < 256" and "length ps \<le> 252"
    and "data = 0xD4 # word_of_int (command AND 0xFF) # map word_of_int ps"
    and "take 1 (wfail s) \<noteq> [True]" and "take 1 (ready s) \<noteq> [True]"
  shows "i2c_call_function command (Some ps) response_length timeout s =
           (Inr None, s\<lparr>ready := tl (ready s), wfail := tl (wfail s),
                        log := log s @ [Write (i2c_frame data), Poll]\<rparr>)
       \<and> spi_call_function command (Some ps) response_length timeout s =
           (Inr None, s\<lparr>ready := tl (ready s), wfail := tl (wfail s),
                        log := log s @ [Write (0x01 # spi_frame data), Poll]\<rparr>)"
proof -
  have b: "build_data command (Some ps) = Inr data"
    using assms(1,3) by (simp add: build_data_Some)
  have l: "1 < length data" "length data < 255" using assms(2,3) by simp_all
  show ?thesis
    using assms(4,5)
    by (simp add: i2c_call_function_def spi_call_function_def b send_ok[OF l] wait_ready_False)
qed

theorem ack_timeout_no_read_witness:
  "i2c_call_function 0x02 (Some []) 4 1
      \<lparr>rx = [0x00, 0x00, 0xFF, 0x00, 0xFF, 0x00], ready = [False], wfail = [], log = []\<rparr>
     = (Inr None, \<lparr>rx = [0x00, 0x00, 0xFF, 0x00, 0xFF, 0x00], ready = [], wfail = [],
                  log = [Write [0x00, 0x00, 0xFF, 0x03, 0xFD, 0xD4, 0x02, 0x29, 0x00], Poll]\<rparr>)
   \<and> spi_call_function 0x02 (Some []) 4 1
      \<lparr>rx = [0x00, 0x00, 0x00, 0xFF, 0x00, 0xFF, 0x00], ready = [], wfail = [False], log = []\<rparr>
     = (Inr None, \<lparr>rx = [0x00, 0x00, 0x00, 0xFF, 0x00, 0xFF, 0x00], ready = [], wfail = [],
                  log = [Write [0x01, 0x00, 0x00, 0xFF, 0x03, 0xFD, 0xD4, 0x02, 0x29, 0x00, 0x00],
                         Poll]\<rparr>)"
  using ack_timeout_no_read [of "[]" "[0xD4, 0x02]" "0x02"
      "\<lparr>rx = [0x00, 0x00, 0xFF, 0x00, 0xFF, 0x00], ready = [False], wfail = [], log = []\<rparr>" 4 1]
    ack_timeout_no_read [of "[]" "[0xD4, 0x02]" "0x02"
      "\<lparr>rx = [0x00, 0x00, 0x00, 0xFF, 0x00, 0xFF, 0x00], ready = [], wfail = [False],
        log = []\<rparr>" 4 1]
  by (simp add: i2c_frame_eq spi_frame_eq)

section \<open>Failure of the write: one wake-up, no second send\<close>















section \<open>The check of the acknowledgement\<close>

text \<open>
  Claim C3, as amended. The code compares only the first three of the six bytes read
  as acknowledgement with \<open>00 00 FF\<close>. Let the frame be sent and the first
  \<open>_wait_ready\<close> succeed, and let \<open>ack\<close> be the six bytes the device delivers (in the
  SPI variant after the byte \<open>b\<close> that \<open>xfer2\<close> returns first). If \<open>ack\<close> differs from
  \<open>00 00 FF\<close> in one of its first three positions, \<open>call_function\<close> returns \<open>None\<close>
  and does nothing more: the events are the write, the poll and the one read, no second
  poll and no further read. If \<open>ack\<close> starts with \<open>00 00 FF\<close>, whatever its last
  three bytes, the call goes on to the second \<open>_wait_ready\<close> and the response phase.
\<close>

theorem ack_check_first_three_bytes:
  assumes "\<forall>v\<in>set ps. 0 \<le> v \<and> v < 256" and "length ps \<le> 252"
    and "data = 0xD4 # word_of_int (command AND 0xFF) # map word_of_int ps"
    and "take 1 (wfail s) \<noteq> [True]" and "take 1 (ready s) = [True]"
    and "length ack = 6"
    and "s_i2c = s\<lparr>rx := rest, ready := tl (ready s), wfail := tl (wfail s),
                     log := log s @ [Write (i2c_frame data), Poll, Read 6]\<rparr>"
    and "s_spi = s\<lparr>rx := rest, ready := tl (ready s), wfail := tl (wfail s),
                     log := log s @ [Write (0x01 # spi_frame data), Poll, Read 7]\<rparr>"
  shows "(take 3 ack \<noteq> [0x00, 0x00, 0xFF] \<and> rx s = ack @ rest \<longrightarrow>
            i2c_call_function command (Some ps) response_length timeout s = (Inr None, s_i2c))
       \<and> (take 3 ack \<noteq> [0x00, 0x00, 0xFF] \<and> rx s = b # ack @ rest \<longrightarrow>
            spi_call_function command (Some ps) response_length timeout s = (Inr None, s_spi))
       \<and> (take 3 ack = [0x00, 0x00, 0xFF] \<and> rx s = ack @ rest \<longrightarrow>
            i2c_call_function command (Some ps) response_length timeout s =
              (case wait_ready timeout s_i2c of
                 (False, s4) \<Rightarrow> (Inr None, s4)
               | (True, s4) \<Rightarrow> i2c_read_response s4))
       \<and> (take 3 ack = [0x00, 0x00, 0xFF] \<and> rx s = b # ack @ rest \<longrightarrow>
            spi_call_function command (Some ps) response_length timeout s =
              (case wait_ready timeout s_spi of
                 (False, s4) \<Rightarrow> (Inr None, s4)
               | (True, s4) \<Rightarrow> spi_read_response response_length s4))"
proof -
  have b: "build_data command (Some ps) = Inr data"
    using assms(1,3) by (simp add: build_data_Some)
  have l: "1 < length data" "length data < 255" using assms(2,3) by simp_all
  have bs: "bad_start ack \<longleftrightarrow> take 3 ack \<noteq> [0x00, 0x00, 0xFF]"
    using assms(6) by (simp add: bad_start_take)
  have ei: "s\<lparr>wfail := tl (wfail s), ready := tl (ready s), rx := rest,
               log := log s @ [Write (i2c_frame data), Poll, Read 6]\<rparr> = s_i2c"
    using assms(7) by simp
  have es: "s\<lparr>wfail := tl (wfail s), ready := tl (ready s), rx := rest,
               log := log s @ [Write (0x01 # spi_frame data), Poll, Read 7]\<rparr> = s_spi"
    using assms(8) by simp
  have i2c: "i2c_call_function command (Some ps) response_length timeout s =
        (if bad_start ack then (Inr None, s_i2c)
         else (case wait_ready timeout s_i2c of
                 (False, s4) \<Rightarrow> (Inr None, s4)
               | (True, s4) \<Rightarrow> i2c_read_response s4))" if "rx s = ack @ rest"
    using that assms(4,5,6) ei
    by (simp add: i2c_call_function_def b send_ok[OF l] wait_ready_True i2c_read_data_def
        bus_read_def)
  have spi: "spi_call_function command (Some ps) response_length timeout s =
        (if bad_start ack then (Inr None, s_spi)
         else (case wait_ready timeout s_spi of
                 (False, s4) \<Rightarrow> (Inr None, s4)
               | (True, s4) \<Rightarrow> spi_read_response response_length s4))" if "rx s = b # ack @ rest"
    using that assms(4,5,6) es
    by (simp add: spi_call_function_def b send_ok[OF l] wait_ready_True xfer2_def
        bus_read_def)
  show ?thesis using i2c spi bs by simp
qed

theorem ack_check_first_three_bytes_witness:
  "i2c_call_function 0x02 (Some []) 4 1
      \<lparr>rx = [0x00, 0x01, 0xFF, 0x00, 0xFF, 0x00, 0x55], ready = [True, True], wfail = [],
        log = []\<rparr>
     = (Inr None, \<lparr>rx = [0x55], ready = [True], wfail = [],
          log = [Write [0x00, 0x00, 0xFF, 0x03, 0xFD, 0xD4, 0x02, 0x29, 0x00], Poll, Read 6]\<rparr>)
   \<and> spi_call_function 0x02 (Some []) 4 1
      \<lparr>rx = [0x00, 0x00, 0x01, 0xFF, 0x00, 0xFF, 0x00, 0x55], ready = [True, True],
        wfail = [], log = []\<rparr>
     = (Inr None, \<lparr>rx = [0x55], ready = [True], wfail = [],
          log = [Write [0x01, 0x00, 0x00, 0xFF, 0x03, 0xFD, 0xD4, 0x02, 0x29, 0x00, 0x00],
                 Poll, Read 7]\<rparr>)"
proof -
  have h1: "\<forall>v\<in>set ([] :: int list). 0 \<le> v \<and> v < 256" by simp
  have h2: "length ([] :: int list) \<le> 252" by simp
  have h3: "[0xD4, 0x02 :: byte] = 0xD4 # word_of_int (0x02 AND 0xFF) # map word_of_int []"
    by simp
  let ?si = "\<lparr>rx = [0x00, 0x01, 0xFF, 0x00, 0xFF, 0x00, 0x55 :: byte], ready = [True, True],
              wfail = [], log = []\<rparr>"
  let ?ss = "\<lparr>rx = [0x00, 0x00, 0x01, 0xFF, 0x00, 0xFF, 0x00, 0x55 :: byte],
              ready = [True, True], wfail = [], log = []\<rparr>"
  have i4: "take 1 (wfail ?si) \<noteq> [True]" and i5: "take 1 (ready ?si) = [True]" by simp_all
  have s4: "take 1 (wfail ?ss) \<noteq> [True]" and s5: "take 1 (ready ?ss) = [True]" by simp_all
  have h6: "length [0x00, 0x01, 0xFF, 0x00, 0xFF, 0x00 :: byte] = 6" by simp
  show ?thesis
    using ack_check_first_three_bytes [where rest = "[0x55]" and response_length = 4
        and timeout = 1, OF h1 h2 h3 i4 i5 h6 refl refl]
      ack_check_first_three_bytes [where rest = "[0x55]" and response_length = 4
        and timeout = 1 and b = 0, OF h1 h2 h3 s4 s5 h6 refl refl]
    by (simp add: i2c_frame_eq spi_frame_eq)
qed

text \<open>
  Claim C3, as stated, fails: the six bytes \<open>00 00 FF 00 FF 00\<close> and the six bytes
  \<open>00 00 FF 12 34 56\<close> both pass the check, and the call goes on to read and return
  the response. At most one of the two is the acknowledgement constant.
\<close>

theorem ack_check_counterexample:
  "i2c_call_function 0x02 (Some []) 4 1
      \<lparr>rx = [0x00, 0x00, 0xFF, 0x00, 0xFF, 0x00]
              @ [0x00, 0x00, 0xFF, 0x06, 0xFA, 0xD5, 0x03, 0x32, 0x01, 0x06, 0x07, 0xE8, 0x00],
        ready = [True, True], wfail = [], log = []\<rparr>
     = (Inr (Some [0x03, 0x32, 0x01, 0x06, 0x07]),
        \<lparr>rx = [], ready = [], wfail = [],
          log = [Write [0x00, 0x00, 0xFF, 0x03, 0xFD, 0xD4, 0x02, 0x29, 0x00], Poll, Read 6,
                 Poll, Read 3, Read 2, Read 8]\<rparr>)
   \<and> i2c_call_function 0x02 (Some []) 4 1
      \<lparr>rx = [0x00, 0x00, 0xFF, 0x12, 0x34, 0x56]
              @ [0x00, 0x00, 0xFF, 0x06, 0xFA, 0xD5, 0x03, 0x32, 0x01, 0x06, 0x07, 0xE8, 0x00],
        ready = [True, True], wfail = [], log = []\<rparr>
     = (Inr (Some [0x03, 0x32, 0x01, 0x06, 0x07]),
        \<lparr>rx = [], ready = [], wfail = [],
          log = [Write [0x00, 0x00, 0xFF, 0x03, 0xFD, 0xD4, 0x02, 0x29, 0x00], Poll, Read 6,
                 Poll, Read 3, Read 2, Read 8]\<rparr>)"
  by code_simp

section \<open>Decoding a frame\<close>

lemma sum_uint_byte_zero:
  "sum_list (map uint xs) AND 0xFF = 0 \<longleftrightarrow> (sum_list xs :: byte) = 0"
  unfolding and_255_mod mod_256_byte byte_of_sum ..

lemma pair_sum_zero: "(uint (a::byte) + uint b) AND 0xFF = 0 \<longleftrightarrow> a + b = 0"
  using sum_uint_byte_zero[of "[a, b]"] by simp

lemma sum_nth_take:
  "n \<le> length xs \<Longrightarrow> (\<Sum>i\<leftarrow>[0..<n]. f (xs ! i)) = sum_list (map f (take n xs))"
proof -
  assume "n \<le> length xs"
  then have "map (\<lambda>i. f (xs ! i)) [0..<n] = map f (take n xs)"
    by (auto intro!: nth_equalityI)
  then show ?thesis by simp
qed

lemma unat_byte_of_nat: "n < 256 \<Longrightarrow> unat (of_nat n :: byte) = n"
  by (simp add: unat_of_nat)

text \<open>
  What the response parser does with a frame that satisfies the frame invariants: for
  a payload \<open>d # opc # dat\<close> (direction byte, opcode, data) with at most 252 data
  bytes, framed by \<open>00 00 FF\<close>, the count of payload bytes, its two's complement,
  the two's complement of the sum of the payload and one postamble byte, it returns
  the opcode followed by the data.
\<close>

lemma decode_well_formed_frame:
  assumes "length dat \<le> 252"
    and "payload = d # opc # dat"
    and "rx s = [0x00, 0x00, 0xFF, of_nat (length payload), - of_nat (length payload)]
                 @ payload @ [- sum_list payload, post] @ rest"
  shows "i2c_read_response s =
           (Inr (Some (opc # dat)),
            s\<lparr>rx := rest, log := log s @ [Read 3, Read 2, Read (length payload + 2)]\<rparr>)"
proof -
  let ?n = "length payload"
  let ?s1 = "s\<lparr>rx := [of_nat ?n, - of_nat ?n] @ payload @ [- sum_list payload, post] @ rest,
               log := log s @ [Read 3]\<rparr>"
  let ?s2 = "s\<lparr>rx := payload @ [- sum_list payload, post] @ rest,
               log := log s @ [Read 3, Read 2]\<rparr>"
  let ?s3 = "s\<lparr>rx := rest, log := log s @ [Read 3, Read 2, Read (?n + 2)]\<rparr>"
  have n: "?n < 256" using assms(1,2) by simp
  have r1: "i2c_read_data 3 s = (Inr [0x00, 0x00, 0xFF], ?s1)"
    unfolding i2c_read_data_def using assms(3) by (simp add: bus_read_def)
  have r2: "i2c_read_data 2 ?s1 = (Inr [of_nat ?n, - of_nat ?n], ?s2)"
    unfolding i2c_read_data_def by (simp add: bus_read_def)
  have r3: "i2c_read_data (?n + 2) ?s2 = (Inr (payload @ [- sum_list payload, post]), ?s3)"
    unfolding i2c_read_data_def by (simp add: bus_read_def)
  have hd: "\<not> bad_start [0x00, 0x00, 0xFF]" by (simp add: bad_start_def)
  have lc: "(uint ([of_nat ?n, - of_nat ?n :: byte] ! 0) + uint ([of_nat ?n, - of_nat ?n :: byte] ! 1))
              AND 0xFF = 0"
    by (simp add: pair_sum_zero)
  have dl: "unat ([of_nat ?n, - of_nat ?n :: byte] ! 0) = ?n"
    using n by (simp add: unat_byte_of_nat)
  have cs: "(\<Sum>i\<leftarrow>[0..<?n + 1]. uint ((payload @ [- sum_list payload, post]) ! i)) AND 0xFF = 0"
  proof -
    have "(\<Sum>i\<leftarrow>[0..<?n + 1]. uint ((payload @ [- sum_list payload, post]) ! i))
            = sum_list (map uint (take (?n + 1) (payload @ [- sum_list payload, post])))"
      by (rule sum_nth_take) simp
    also have "take (?n + 1) (payload @ [- sum_list payload, post])
                 = payload @ [- sum_list payload]"
      by simp
    finally show ?thesis
      using sum_uint_byte_zero[of "payload @ [- sum_list payload]"] by simp
  qed
  have sl: "py_slice (payload @ [- sum_list payload, post]) 1 (1 + ?n - 1) = opc # dat"
    using assms(2) by (simp add: py_slice_def)
  show ?thesis
    unfolding i2c_read_response_def r1 prod.case sum.case Let_def
    using hd lc dl cs sl r2 r3 by (simp del: upt_Suc)
qed

text \<open>
  Claim C1. The round trip fails: for the payload \<open>D4 4A 01 00\<close> (direction
  byte, opcode \<open>4A\<close>, data \<open>01 00\<close>) \<open>send_command\<close> writes the frame
  \<open>00 00 FF 05 FB D4 4A 01 00 E0 00\<close>, and the response parser of \<open>call_function\<close>
  returns \<open>None\<close> for that frame, not the payload, whether the bus stops after the
  frame or goes on with zero bytes.
\<close>

theorem send_command_roundtrip_fails:
  "i2c_send_command [0xD4, 0x4A, 0x01, 0x00] \<lparr>rx = [], ready = [], wfail = [], log = []\<rparr>
     = (Inr (), \<lparr>rx = [], ready = [], wfail = [],
          log = [Write [0x00, 0x00, 0xFF, 0x05, 0xFB, 0xD4, 0x4A, 0x01, 0x00, 0xE0, 0x00]]\<rparr>)
   \<and> i2c_read_response
        \<lparr>rx = [0x00, 0x00, 0xFF, 0x05, 0xFB, 0xD4, 0x4A, 0x01, 0x00, 0xE0, 0x00],
          ready = [], wfail = [], log = []\<rparr>
     = (Inr None, \<lparr>rx = [], ready = [], wfail = [], log = [Read 3, Read 2, Read 7]\<rparr>)
   \<and> i2c_read_response
        \<lparr>rx = [0x00, 0x00, 0xFF, 0x05, 0xFB, 0xD4, 0x4A, 0x01, 0x00, 0xE0, 0x00, 0x00, 0x00],
          ready = [], wfail = [], log = []\<rparr>
     = (Inr None, \<lparr>rx = [0x00], ready = [], wfail = [], log = [Read 3, Read 2, Read 7]\<rparr>)"
  by code_simp

text \<open>
  The same for every \<open>data\<close> that \<open>send_command\<close> accepts and every continuation
  \<open>rest\<close> of the bus: the response parser returns \<open>None\<close> for the frame that
  \<open>send_command\<close> builds.
\<close>

lemma send_command_frame_not_decoded:
  assumes "1 < length data" and "length data < 255" and "rx s = i2c_frame data @ rest"
  shows "fst (i2c_read_response s) = Inr None"
proof -
  let ?n = "length data"
  let ?l = "of_nat (?n + 1) :: byte"
  let ?c = "- 1 - sum_list data :: byte"
  let ?s1 = "s\<lparr>rx := [?l, - ?l] @ data @ [?c, 0] @ rest, log := log s @ [Read 3]\<rparr>"
  let ?s2 = "s\<lparr>rx := data @ [?c, 0] @ rest, log := log s @ [Read 3, Read 2]\<rparr>"
  have rx: "rx s = [0x00, 0x00, 0xFF, ?l, - ?l] @ data @ [?c, 0] @ rest"
    using assms(3) by (simp add: i2c_frame_eq del: of_nat_Suc of_nat_add)
  have r1: "i2c_read_data 3 s = (Inr [0x00, 0x00, 0xFF], ?s1)"
    unfolding i2c_read_data_def using rx by (simp add: bus_read_def del: of_nat_Suc of_nat_add)
  have r2: "i2c_read_data 2 ?s1 = (Inr [?l, - ?l], ?s2)"
    unfolding i2c_read_data_def by (simp add: bus_read_def del: of_nat_Suc of_nat_add)
  have hd: "\<not> bad_start [0x00, 0x00, 0xFF]" by (simp add: bad_start_def)
  have lc: "(uint ([?l, - ?l] ! 0) + uint ([?l, - ?l] ! 1)) AND 0xFF = 0"
    by (simp add: pair_sum_zero del: of_nat_Suc of_nat_add)
  have dl: "unat ([?l, - ?l] ! 0) = ?n + 1"
    using assms(2) by (simp add: unat_byte_of_nat del: of_nat_Suc of_nat_add)
  have r3: "fst (case i2c_read_data (?n + 1 + 2) ?s2 of
              (Inl e, s3) \<Rightarrow> (if e = OSError then Inr None else Inl e, s3)
            | (Inr response, s3) \<Rightarrow>
                if (\<Sum>i\<leftarrow>[0..<?n + 1 + 1]. uint (response ! i)) AND 0xFF \<noteq> 0
                then (Inr None, s3)
                else (Inr (Some (py_slice response 1 (1 + (?n + 1) - 1))), s3)) = Inr None"
  proof (cases rest)
    case Nil
    then show ?thesis by (simp add: i2c_read_data_def bus_read_def)
  next
    case (Cons r rest')
    let ?resp = "data @ [?c, 0, r]"
    have rd: "i2c_read_data (?n + 1 + 2) ?s2
                = (Inr ?resp, s\<lparr>rx := rest', log := log s @ [Read 3, Read 2, Read (?n + 3)]\<rparr>)"
      using Cons by (simp add: i2c_read_data_def bus_read_def)
    have t: "take (?n + 1 + 1) ?resp = data @ [?c, 0]" by simp
    have "(\<Sum>i\<leftarrow>[0..<?n + 1 + 1]. uint (?resp ! i))
            = sum_list (map uint (take (?n + 1 + 1) ?resp))"
      by (rule sum_nth_take) simp
    then have e: "(\<Sum>i\<leftarrow>[0..<?n + 1 + 1]. uint (?resp ! i))
                    = sum_list (map uint (data @ [?c, 0]))"
      unfolding t .
    have "sum_list (data @ [?c, 0]) \<noteq> 0" by simp
    then have "sum_list (map uint (data @ [?c, 0])) AND 0xFF \<noteq> 0"
      unfolding sum_uint_byte_zero .
    then have "(\<Sum>i\<leftarrow>[0..<?n + 1 + 1]. uint (?resp ! i)) AND 0xFF \<noteq> 0"
      unfolding e .
    then show ?thesis unfolding rd by (simp del: upt_Suc)
  qed
  show ?thesis
    unfolding i2c_read_response_def r1 prod.case sum.case Let_def
    by (simp only: hd if_False r2 prod.case sum.case lc dl r3 simp_thms)
qed

section \<open>The frame \<open>send_command\<close> builds\<close>

text \<open>
  Claim C2. For \<open>data = D4 02\<close> (the payload of \<open>GetFirmwareVersion\<close>, two bytes
  with the direction byte) both variants build \<open>00 00 FF 03 FD D4 02 29\<close>: the
  length field is 3, not 2, and the payload and its checksum add up to \<open>FF\<close>, not to
  zero. Only the length checksum is as claimed.
\<close>

theorem send_command_frame_defect:
  "i2c_frame [0xD4, 0x02] = [0x00, 0x00, 0xFF, 0x03, 0xFD, 0xD4, 0x02, 0x29, 0x00]
   \<and> spi_frame [0xD4, 0x02] = [0x00, 0x00, 0xFF, 0x03, 0xFD, 0xD4, 0x02, 0x29, 0x00, 0x00]
   \<and> length [0xD4, 0x02 :: byte] = 2
   \<and> (0xD4 + 0x02 + 0x29 :: byte) = 0xFF"
  by code_simp

text \<open>
  The same for every \<open>data\<close>: the length field is the length of \<open>data\<close> plus one,
  the length and its checksum add up to zero, \<open>data\<close> and its checksum add up to
  \<open>FF\<close>.
\<close>

lemma nth_past_5: "(a # b # c # d # e # xs) ! (5 + n) = xs ! n"
  by (simp add: eval_nat_numeral)

lemma send_command_frame_fields:
  "i2c_frame data ! 3 = of_nat (length data + 1)"
  "i2c_frame data ! 3 + i2c_frame data ! 4 = 0"
  "sum_list data + i2c_frame data ! (5 + length data) = 0xFF"
  "spi_frame data ! 3 = of_nat (length data + 1)"
  "spi_frame data ! 3 + spi_frame data ! 4 = 0"
  "sum_list data + spi_frame data ! (5 + length data) = 0xFF"
  unfolding i2c_frame_eq spi_frame_eq
  by (simp_all add: nth_past_5 del: of_nat_Suc of_nat_add)

section \<open>The frame header in the SPI variant\<close>

text \<open>
  Claim C4. In the SPI variant, after a good acknowledgement and a successful second
  \<open>_wait_ready\<close>, the header read returns three bytes; with the start \<open>00 00 FF\<close>
  there, \<open>frame[3]\<close> raises \<open>IndexError\<close>. Here the device answers
  \<open>GetFirmwareVersion\<close> with a well-formed frame.
\<close>

theorem spi_header_index_error:
  "spi_call_function 0x02 (Some []) 4 1
      \<lparr>rx = [0x00, 0x00, 0x00, 0xFF, 0x00, 0xFF, 0x00]
              @ [0x00, 0x00, 0x00, 0xFF, 0x06, 0xFA, 0xD5, 0x03, 0x32, 0x01, 0x06, 0x07, 0xE8, 0x00],
        ready = [True, True], wfail = [], log = []\<rparr>
     = (Inl IndexError,
        \<lparr>rx = [0x06, 0xFA, 0xD5, 0x03, 0x32, 0x01, 0x06, 0x07, 0xE8, 0x00], ready = [],
          wfail = [],
          log = [Write [0x01, 0x00, 0x00, 0xFF, 0x03, 0xFD, 0xD4, 0x02, 0x29, 0x00, 0x00],
                 Poll, Read 7, Poll, Read 4]\<rparr>)"
  by code_simp

text \<open>On no bus does the SPI variant return a response.\<close>

lemma spi_read_response_no_payload: "fst (spi_read_response rl s) \<noteq> Inr (Some x)"
proof (cases "xfer2 4 s")
  case (Pair r s1)
  show ?thesis
  proof (cases r)
    case (Inl e)
    with Pair show ?thesis by (simp add: spi_read_response_def)
  next
    case (Inr bs)
    with Pair have "length bs = 4"
      by (auto simp: xfer2_def bus_read_def split: if_splits)
    then have "idx (drop 1 bs) 3 = Inl IndexError" by (simp add: idx_def)
    with Pair Inr show ?thesis by (simp add: spi_read_response_def Let_def)
  qed
qed

lemma spi_call_function_no_payload: "fst (spi_call_function c p rl t s) \<noteq> Inr (Some x)"
  unfolding spi_call_function_def Let_def
  by (auto simp: spi_read_response_no_payload split: sum.splits prod.splits bool.splits)

section \<open>The command catalog\<close>

text \<open>
  Claim C5. \<open>read_passive_target\<close>, for any \<open>call_function\<close> that returns
  \<open>response\<close>: if the target count \<open>response[0]\<close> is 2, the call raises the
  more-than-one-card error; if the count is 1 and the UID length \<open>response[5]\<close> is 8,
  it raises the long-UID error (and with a UID length of 8 it fails whatever the
  count); if the count is 1 and the UID length is 4, followed by four UID bytes, it
  returns exactly these four bytes, \<open>response[6:10]\<close>.
\<close>

theorem read_passive_target_decode:
  assumes "call_function 0x4A (Some [0x01, card_baud]) 20 timeout s = (Inr (Some response), s1)"
  shows "(response = 0x02 # rest \<longrightarrow>
            read_passive_target call_function card_baud timeout s =
              (Inl (RuntimeError ''More than one card detected!''), s1))
       \<and> (response = 0x01 # a1 # a2 # a3 # a4 # 0x08 # rest \<longrightarrow>
            read_passive_target call_function card_baud timeout s =
              (Inl (RuntimeError ''Found card with unexpectedly long UID!''), s1))
       \<and> (response = c # a1 # a2 # a3 # a4 # 0x08 # rest \<longrightarrow>
            (\<exists>e. read_passive_target call_function card_baud timeout s = (Inl e, s1)))
       \<and> (response = 0x01 # a1 # a2 # a3 # a4 # 0x04 # u1 # u2 # u3 # u4 # rest \<longrightarrow>
            read_passive_target call_function card_baud timeout s =
              (Inr (Some [u1, u2, u3, u4]), s1))"
  using assms by (simp add: read_passive_target_def idx_def py_slice_def)

theorem read_passive_target_decode_witness:
  "read_passive_target (\<lambda>c p r t s. (Inr (Some [0x02, 0x01, 0x00, 0x04, 0x08, 0x04]), Suc s))
      0x00 1000 (0::nat)
     = (Inl (RuntimeError ''More than one card detected!''), 1)
   \<and> read_passive_target
      (\<lambda>c p r t s. (Inr (Some [0x01, 0x01, 0x00, 0x04, 0x08, 0x08, 1, 2, 3, 4, 5, 6, 7, 8]), Suc s))
      0x00 1000 (0::nat)
     = (Inl (RuntimeError ''Found card with unexpectedly long UID!''), 1)
   \<and> read_passive_target
      (\<lambda>c p r t s. (Inr (Some [0x01, 0x01, 0x00, 0x04, 0x08, 0x04, 0xDE, 0xAD, 0xBE, 0xEF]), Suc s))
      0x00 1000 (0::nat)
     = (Inr (Some [0xDE, 0xAD, 0xBE, 0xEF]), 1)"
  using read_passive_target_decode
      [of "\<lambda>c p r t s. (Inr (Some [0x02, 0x01, 0x00, 0x04, 0x08, 0x04]), Suc s)"
          "0x00" 1000 "0::nat" "[0x02, 0x01, 0x00, 0x04, 0x08, 0x04]" 1
          "[0x01, 0x00, 0x04, 0x08, 0x04]"]
    read_passive_target_decode
      [of "\<lambda>c p r t s. (Inr (Some [0x01, 0x01, 0x00, 0x04, 0x08, 0x08, 1, 2, 3, 4, 5, 6, 7, 8]), Suc s)"
          "0x00" 1000 "0::nat" "[0x01, 0x01, 0x00, 0x04, 0x08, 0x08, 1, 2, 3, 4, 5, 6, 7, 8]" 1]
    read_passive_target_decode
      [of "\<lambda>c p r t s. (Inr (Some [0x01, 0x01, 0x00, 0x04, 0x08, 0x04, 0xDE, 0xAD, 0xBE, 0xEF]), Suc s)"
          "0x00" 1000 "0::nat" "[0x01, 0x01, 0x00, 0x04, 0x08, 0x04, 0xDE, 0xAD, 0xBE, 0xEF]" 1]
  by simp

text \<open>
  Claim C6. \<open>get_firmware_version\<close> passes \<open>params=None\<close>, and \<open>call_function\<close>
  takes \<open>len(params)\<close> first: it raises \<open>TypeError\<close> before anything is sent. Here the
  device would acknowledge and answer \<open>GetFirmwareVersion\<close> with the well-formed frame
  that carries \<open>32 01 06 07\<close>; the operation does not decode it, in either variant, and
  the bus is untouched.
\<close>

theorem get_firmware_version_type_error:
  "get_firmware_version i2c_call_function
      \<lparr>rx = [0x00, 0x00, 0xFF, 0x00, 0xFF, 0x00]
              @ [0x00, 0x00, 0xFF, 0x06, 0xFA, 0xD5, 0x03, 0x32, 0x01, 0x06, 0x07, 0xE8, 0x00],
        ready = [True, True], wfail = [], log = []\<rparr>
     = (Inl TypeError,
        \<lparr>rx = [0x00, 0x00, 0xFF, 0x00, 0xFF, 0x00]
              @ [0x00, 0x00, 0xFF, 0x06, 0xFA, 0xD5, 0x03, 0x32, 0x01, 0x06, 0x07, 0xE8, 0x00],
          ready = [True, True], wfail = [], log = []\<rparr>)
   \<and> get_firmware_version spi_call_function
      \<lparr>rx = [0x00, 0x00, 0x00, 0xFF, 0x00, 0xFF, 0x00]
              @ [0x00, 0x00, 0x00, 0xFF, 0x06, 0xFA, 0xD5, 0x03, 0x32, 0x01, 0x06, 0x07, 0xE8,
                 0x00],
        ready = [True, True], wfail = [], log = []\<rparr>
     = (Inl TypeError,
        \<lparr>rx = [0x00, 0x00, 0x00, 0xFF, 0x00, 0xFF, 0x00]
              @ [0x00, 0x00, 0x00, 0xFF, 0x06, 0xFA, 0xD5, 0x03, 0x32, 0x01, 0x06, 0x07, 0xE8,
                 0x00],
          ready = [True, True], wfail = [], log = []\<rparr>)"
  by code_simp

text \<open>The same on every bus.\<close>

lemma get_firmware_version_variants:
  "get_firmware_version i2c_call_function s = (Inl TypeError, s)"
  "get_firmware_version spi_call_function s = (Inl TypeError, s)"
  by (simp_all add: get_firmware_version_def i2c_call_function_def spi_call_function_def
      build_data_def)

text \<open>
  The tuple of line 124 alone: four bytes give the four fields, fewer raise
  \<open>IndexError\<close>.
\<close>

lemma firmware_tuple_decode:
  "firmware_tuple [0x32, 0x01, 0x06, 0x07] = Inr (0x32, 0x01, 0x06, 0x07)"
  "length response < 4 \<Longrightarrow> firmware_tuple response = Inl IndexError"
  by (auto simp: firmware_tuple_def idx_def)

text \<open>
  Claim C7. The block writes fail on bad arguments before any use of the bus:
  \<open>write_mifare\<close> with a data length other than 16 and \<open>write_ntag2xx\<close> with a data
  length other than 4 raise \<open>AssertionError\<close>, \<open>write_ntag2xx\<close> with four bytes and a
  block number below 4 or above 129 raises \<open>RuntimeError\<close>. In each case the state
  comes back as it was, for any \<open>call_function\<close> over any state: \<open>call_function\<close> is
  not called, so nothing is written or read.
\<close>

theorem write_bad_arguments_no_io:
  "(length data \<noteq> 16 \<longrightarrow>
      write_mifare call_function block_number data key_number key s = (Inl AssertionError, s))
   \<and> (length data \<noteq> 4 \<longrightarrow>
      write_ntag2xx call_function block_number data s = (Inl AssertionError, s))
   \<and> (length data = 4 \<and> (block_number < 4 \<or> block_number > 129) \<longrightarrow>
      write_ntag2xx call_function block_number data s =
        (Inl (RuntimeError ''Block must be user block4..129''), s))"
  by (auto simp: write_mifare_def write_ntag2xx_def)

theorem write_bad_arguments_no_io_witness:
  "write_mifare i2c_call_function 4 [0x01, 0x02, 0x03, 0x04] 0 None
      \<lparr>rx = [0x00, 0x00, 0xFF, 0x00, 0xFF, 0x00], ready = [True, True], wfail = [], log = []\<rparr>
     = (Inl AssertionError,
        \<lparr>rx = [0x00, 0x00, 0xFF, 0x00, 0xFF, 0x00], ready = [True, True], wfail = [], log = []\<rparr>)
   \<and> write_ntag2xx spi_call_function 4 [0x01, 0x02, 0x03] 
      \<lparr>rx = [0x00, 0x00, 0xFF, 0x00, 0xFF, 0x00], ready = [True, True], wfail = [], log = []\<rparr>
     = (Inl AssertionError,
        \<lparr>rx = [0x00, 0x00, 0xFF, 0x00, 0xFF, 0x00], ready = [True, True], wfail = [], log = []\<rparr>)
   \<and> write_ntag2xx i2c_call_function 130 [0x01, 0x02, 0x03, 0x04]
      \<lparr>rx = [0x00, 0x00, 0xFF, 0x00, 0xFF, 0x00], ready = [True, True], wfail = [], log = []\<rparr>
     = (Inl (RuntimeError ''Block must be user block4..129''),
        \<lparr>rx = [0x00, 0x00, 0xFF, 0x00, 0xFF, 0x00], ready = [True, True], wfail = [], log = []\<rparr>)"
  using write_bad_arguments_no_io
      [of "[0x01, 0x02, 0x03, 0x04]" i2c_call_function 4 0 None
          "\<lparr>rx = [0x00, 0x00, 0xFF, 0x00, 0xFF, 0x00], ready = [True, True], wfail = [], log = []\<rparr>"]
    write_bad_arguments_no_io
      [of "[0x01, 0x02, 0x03]" spi_call_function 4 0 None
          "\<lparr>rx = [0x00, 0x00, 0xFF, 0x00, 0xFF, 0x00], ready = [True, True], wfail = [], log = []\<rparr>"]
    write_bad_arguments_no_io
      [of "[0x01, 0x02, 0x03, 0x04]" i2c_call_function 130 0 None
          "\<lparr>rx = [0x00, 0x00, 0xFF, 0x00, 0xFF, 0x00], ready = [True, True], wfail = [], log = []\<rparr>"]
  by simp

text \<open>
  Claim C10. \<open>read_mifare\<close> and \<open>write_mifare\<close> on the I2C variant, with a card
  found (UID \<open>DE AD BE EF\<close>) and a device that is not ready after the authentication
  command is sent: \<open>call_function\<close> returns \<open>None\<close>, and \<open>response[0]\<close> raises
  \<open>TypeError\<close>.
\<close>

theorem mifare_none_response_type_error:
  "read_mifare i2c_call_function 4 0 None
      \<lparr>rx = [0x00, 0x00, 0xFF, 0x00, 0xFF, 0x00]
              @ [0x00, 0x00, 0xFF, 0x0B, 0xF5, 0xD5, 0x01, 0x00, 0x00, 0x04, 0x08, 0x04,
                 0xDE, 0xAD, 0xBE, 0xEF, 0xE2, 0x00],
        ready = [True, True, False], wfail = [], log = []\<rparr>
     = (Inl TypeError,
        \<lparr>rx = [], ready = [], wfail = [],
          log = [Write [0x00, 0x00, 0xFF, 0x05, 0xFB, 0xD4, 0x4A, 0x01, 0x00, 0xE0, 0x00],
                 Poll, Read 6, Poll, Read 3, Read 2, Read 13,
                 Write [0x00, 0x00, 0xFF, 0x10, 0xF0, 0xD4, 0x40, 0x01, 0x60, 0x04,
                        0xFF, 0xFF, 0xFF, 0xFF, 0xFF, 0xFF, 0xDE, 0xAD, 0xBE, 0xEF, 0x54, 0x00],
                 Poll]\<rparr>)
   \<and> write_mifare i2c_call_function 4 [0, 1, 2, 3, 4, 5, 6, 7, 8, 9, 10, 11, 12, 13, 14, 15]
      0 None
      \<lparr>rx = [0x00, 0x00, 0xFF, 0x00, 0xFF, 0x00]
              @ [0x00, 0x00, 0xFF, 0x0B, 0xF5, 0xD5, 0x01, 0x00, 0x00, 0x04, 0x08, 0x04,
                 0xDE, 0xAD, 0xBE, 0xEF, 0xE2, 0x00],
        ready = [True, True, False], wfail = [], log = []\<rparr>
     = (Inl TypeError,
        \<lparr>rx = [], ready = [], wfail = [],
          log = [Write [0x00, 0x00, 0xFF, 0x05, 0xFB, 0xD4, 0x4A, 0x01, 0x00, 0xE0, 0x00],
                 Poll, Read 6, Poll, Read 3, Read 2, Read 13,
                 Write [0x00, 0x00, 0xFF, 0x10, 0xF0, 0xD4, 0x40, 0x01, 0x60, 0x04,
                        0xFF, 0xFF, 0xFF, 0xFF, 0xFF, 0xFF, 0xDE, 0xAD, 0xBE, 0xEF, 0x54, 0x00],
                 Poll]\<rparr>)"
  by code_simp

text \<open>
  The same for any \<open>call_function\<close>: once a card is found, a \<open>None\<close> from the
  authentication call ends both methods with \<open>TypeError\<close>. And without a card
  (\<open>get_passive_mifare\<close> returns \<open>None\<close>) the tuple assignment raises it.
\<close>

lemma mifare_absent_response:
  assumes "get_passive_mifare call_function s = (Inr (Some (uidlen, uid)), s1)"
    and "call_function 0x40
           (Some ([0x01] @ key_cmd block_number key_number (default_key key) uid)) 1 1000 s1
         = (Inr None, s2)"
  shows "read_mifare call_function block_number key_number key s = (Inl TypeError, s2)"
    and "length data = 16 \<Longrightarrow>
         write_mifare call_function block_number data key_number key s = (Inl TypeError, s2)"
  using assms by (auto simp: read_mifare_def write_mifare_def Let_def)

lemma mifare_no_card:
  assumes "get_passive_mifare call_function s = (Inr None, s1)"
  shows "read_mifare call_function block_number key_number key s = (Inl TypeError, s1)"
    and "length data = 16 \<Longrightarrow>
         write_mifare call_function block_number data key_number key s = (Inl TypeError, s1)"
  using assms by (auto simp: read_mifare_def write_mifare_def Let_def)

end
